theory Spec2Isabelle
  imports Main
begin

section \<open>Values exchanged with the collaborating libraries\<close>

text \<open>
  The file \<^verbatim>\<open>notifier/stomp/failover.go\<close> drives four collaborators: the transport
  dialer (\<^verbatim>\<open>net.Dialer\<close> or \<^verbatim>\<open>tls.Dialer\<close>), the STOMP handshake
  (\<^verbatim>\<open>gostomp.Connect\<close>), \<^verbatim>\<open>net.Conn.Close\<close> and the \<^verbatim>\<open>zlog\<close> sink. Their
  values are kept opaque: a transport connection, a STOMP session and a TLS configuration
  are references, modelled as handles; a Go pointer or interface that may be \<^verbatim>\<open>nil\<close>
  is an \<open>option\<close>.
\<close>

datatype net_conn = NetConn nat

datatype stomp_conn = StompConn nat

datatype tls_config = TlsConfig string

text \<open>\<^verbatim>\<open>config.Login\<close>: the login/passcode pair.\<close>

record config_Login =
  Login :: string
  Passcode :: string

text \<open>
  Go errors. \<open>Canceled\<close> and \<open>DeadlineExceeded\<close> are the two errors of package
  \<^verbatim>\<open>context\<close>, \<open>ExtError\<close> is any other error made by a library, \<open>NewError m\<close> is
  \<^verbatim>\<open>fmt.Errorf\<close> without a \<^verbatim>\<open>%w\<close> verb and \<open>WrapError m e\<close> is \<^verbatim>\<open>fmt.Errorf\<close>
  with one: the message \<open>m\<close> and the wrapped error \<open>e\<close>.
\<close>

datatype error =
    Canceled
  | DeadlineExceeded
  | ExtError string
  | NewError string
  | WrapError string error

fun Error :: "error \<Rightarrow> string" where
  "Error Canceled = ''context canceled''"
| "Error DeadlineExceeded = ''context deadline exceeded''"
| "Error (ExtError m) = m"
| "Error (NewError m) = m"
| "Error (WrapError m e) = m"


text \<open>
  A \<^verbatim>\<open>context.Context\<close>: what \<^verbatim>\<open>ctx.Err()\<close> answers (\<open>None\<close> while the context is
  live) and the key/value pairs attached to it.
\<close>

record ctx =
  Err :: "error option"
  Values :: "(string \<times> string) list"

text \<open>
  \<^verbatim>\<open>zlog.ContextWithValues\<close> derives a context carrying one more pair; a derived
  context is cancelled exactly when its parent is.
\<close>

definition ContextWithValues :: "ctx \<Rightarrow> string \<Rightarrow> string \<Rightarrow> ctx" where
  "ContextWithValues c k v = c\<lparr>Values := Values c @ [(k, v)]\<rparr>"

text \<open>A connect option of \<^verbatim>\<open>gostomp\<close>; the source builds only \<^verbatim>\<open>ConnOpt.Login\<close>.\<close>

datatype conn_opt = ConnOpt_Login string string

text \<open>\<^verbatim>\<open>net.Dialer\<close> with its timeout in nanoseconds, and the two dialers of \<^verbatim>\<open>Dial\<close>.\<close>

record net_Dialer =
  Timeout :: int

definition Second :: int where
  "Second = 1000000000"

datatype dialer =
    NetDialer net_Dialer
  | TlsDialer net_Dialer tls_config

section \<open>The connector and the observable effects\<close>

text \<open>The struct \<^verbatim>\<open>failOver\<close>.\<close>

record failOver =
  tls :: "tls_config option"
  login :: "config_Login option"
  uris :: "string list"

text \<open>
  Every call into a collaborator is recorded, with its arguments and its answer:
  \<open>EvDial d ctx network uri conn err\<close> for \<^verbatim>\<open>d.DialContext(ctx, network, uri)\<close>,
  \<open>EvConnect conn opts stompConn err\<close> for \<^verbatim>\<open>gostomp.Connect(conn, opts...)\<close>,
  \<open>EvClose conn\<close> for \<^verbatim>\<open>conn.Close()\<close> and \<open>EvLog ctx uri err msg\<close> for the debug
  log line.
\<close>

datatype event =
    EvDial dialer ctx string string "net_conn option" "error option"
  | EvConnect "net_conn option" "conn_opt list" "stomp_conn option" "error option"
  | EvClose net_conn
  | EvLog ctx string error string

text \<open>
  The collaborators, over a state \<open>'w\<close> of the outside world (network, brokers, log
  sink). Each returns what the Go function returns, a pair of a possibly-nil value and a
  possibly-nil error, and the new world. The error of \<^verbatim>\<open>Close\<close> is dropped by the
  source, so \<open>Close\<close> only gives the new world.
\<close>

record 'w env =
  DialContext :: "dialer \<Rightarrow> ctx \<Rightarrow> string \<Rightarrow> string \<Rightarrow> 'w \<Rightarrow> (net_conn option \<times> error option) \<times> 'w"
  gostomp_Connect :: "net_conn option \<Rightarrow> conn_opt list \<Rightarrow> 'w \<Rightarrow> (stomp_conn option \<times> error option) \<times> 'w"
  Close :: "net_conn \<Rightarrow> 'w \<Rightarrow> 'w"
  zlog_Debug :: "ctx \<Rightarrow> string \<Rightarrow> error \<Rightarrow> string \<Rightarrow> 'w \<Rightarrow> 'w"

text \<open>
  The state a call runs in: the world, the calls made so far, and the struct the
  receiver \<^verbatim>\<open>f *failOver\<close> points to.
\<close>

record 'w sys =
  world :: 'w
  trace :: "event list"
  connector :: failOver

section \<open>The two methods\<close>

text \<open>The options built at lines 31-34 and the dialer chosen at lines 36-46.\<close>

definition login_opts :: "failOver \<Rightarrow> conn_opt list" where
  "login_opts f =
     (case login f of
        Some l \<Rightarrow> [] @ [ConnOpt_Login (Login l) (Passcode l)]
      | None \<Rightarrow> [])"

definition choose_dialer :: "failOver \<Rightarrow> dialer" where
  "choose_dialer f =
     (let d = \<lparr>Timeout = 2 * Second\<rparr>
      in case tls f of
           Some cfg \<Rightarrow> TlsDialer d cfg
         | None \<Rightarrow> NetDialer d)"

text \<open>\<^verbatim>\<open>failOver.Dial\<close>, lines 30-61.\<close>

definition Dial ::
  "'w env \<Rightarrow> ctx \<Rightarrow> string \<Rightarrow> 'w sys \<Rightarrow> (stomp_conn option \<times> error option) \<times> 'w sys" where
  "Dial E c uri s =
     (let f = connector s;
          opts = login_opts f;
          d = choose_dialer f;
          ((conn, err), w1) = DialContext E d c ''tcp'' uri (world s);
          s1 = s\<lparr>world := w1, trace := trace s @ [EvDial d c ''tcp'' uri conn err]\<rparr>
      in case err of
           Some e \<Rightarrow>
             ((None, Some (WrapError (''failed to connect to broker @ '' @ uri @ '': '' @ Error e) e)), s1)
         | None \<Rightarrow>
             (let ((stompConn, err2), w2) = gostomp_Connect E conn opts w1;
                  s2 = s1\<lparr>world := w2, trace := trace s1 @ [EvConnect conn opts stompConn err2]\<rparr>
              in case err2 of
                   Some e2 \<Rightarrow>
                     (let s3 = (case conn of
                                  Some cn \<Rightarrow> s2\<lparr>world := Close E cn w2, trace := trace s2 @ [EvClose cn]\<rparr>
                                | None \<Rightarrow> s2)
                      in ((None, Some (WrapError (''stomp connect handshake to broker @ '' @ uri @ '' failed: '' @ Error e2) e2)), s3))
                 | None \<Rightarrow> ((stompConn, None), s2)))"

text \<open>The error of line 82.\<close>

definition Exhausted :: error where
  "Exhausted = NewError ''exhausted all brokers and unable to make connection''"

text \<open>The log line of lines 74-77.\<close>

definition log_failed :: "'w env \<Rightarrow> ctx \<Rightarrow> string \<Rightarrow> error \<Rightarrow> 'w sys \<Rightarrow> 'w sys" where
  "log_failed E c uri e s =
     s\<lparr>world := zlog_Debug E c uri e ''failed to dial broker. attempting next'' (world s),
       trace := trace s @ [EvLog c uri e ''failed to dial broker. attempting next'']\<rparr>"

text \<open>The loop of lines 71-82 over the remaining addresses.\<close>

fun Connection_loop ::
  "'w env \<Rightarrow> ctx \<Rightarrow> string list \<Rightarrow> 'w sys \<Rightarrow> (stomp_conn option \<times> error option) \<times> 'w sys" where
  "Connection_loop E c [] s = ((None, Some Exhausted), s)"
| "Connection_loop E c (uri # rest) s =
     (case Dial E c uri s of
        ((conn, Some e), s1) \<Rightarrow> Connection_loop E c rest (log_failed E c uri e s1)
      | ((conn, None), s1) \<Rightarrow> ((conn, None), s1))"

text \<open>
  \<^verbatim>\<open>failOver.Connection\<close>, lines 68-83. The range expression \<^verbatim>\<open>f.uris\<close> is
  evaluated once, before the first iteration.
\<close>

definition Connection ::
  "'w env \<Rightarrow> ctx \<Rightarrow> 'w sys \<Rightarrow> (stomp_conn option \<times> error option) \<times> 'w sys" where
  "Connection E c s =
     Connection_loop E
       (ContextWithValues c ''component'' ''notifier/stomp/failOver.Connection'')
       (uris (connector s)) s"


section \<open>Observing a call\<close>

text \<open>The context the loop of \<^verbatim>\<open>Connection\<close> runs with (line 69).\<close>

abbreviation loop_ctx :: "ctx \<Rightarrow> ctx" where
  "loop_ctx c \<equiv> ContextWithValues c ''component'' ''notifier/stomp/failOver.Connection''"

text \<open>The calls a run appended to the record, from the state before and the state after.\<close>

definition new_events :: "'w sys \<Rightarrow> 'w sys \<Rightarrow> event list" where
  "new_events s s' = drop (length (trace s)) (trace s')"

text \<open>
  Projections of a record of calls: the addresses dialled, the dialers used, the contexts
  handed to the dialer, the transport connections any dial returned, and the option lists
  handed to the handshake, each in call order.
\<close>

fun dial_uris :: "event list \<Rightarrow> string list" where
  "dial_uris [] = []"
| "dial_uris (EvDial d c n uri conn err # tr) = uri # dial_uris tr"
| "dial_uris (ev # tr) = dial_uris tr"

fun dialers :: "event list \<Rightarrow> dialer list" where
  "dialers [] = []"
| "dialers (EvDial d c n uri conn err # tr) = d # dialers tr"
| "dialers (ev # tr) = dialers tr"

fun dial_ctxs :: "event list \<Rightarrow> ctx list" where
  "dial_ctxs [] = []"
| "dial_ctxs (EvDial d c n uri conn err # tr) = c # dial_ctxs tr"
| "dial_ctxs (ev # tr) = dial_ctxs tr"

fun opened :: "event list \<Rightarrow> net_conn list" where
  "opened [] = []"
| "opened (EvDial d c n uri (Some cn) err # tr) = cn # opened tr"
| "opened (ev # tr) = opened tr"

fun handshake_opts :: "event list \<Rightarrow> conn_opt list list" where
  "handshake_opts [] = []"
| "handshake_opts (EvConnect conn opts sc err # tr) = opts # handshake_opts tr"
| "handshake_opts (ev # tr) = handshake_opts tr"

text \<open>
  Socket accounting. A dial that returns a connection and no error opens a socket,
  \<^verbatim>\<open>Close\<close> closes it. \<open>open_socks op tr\<close> is what is open after \<open>tr\<close> when
  \<open>op\<close> was open before; \<open>closed_before_next op tr\<close> says that whenever \<open>tr\<close>
  starts a dial, nothing is open.
\<close>

fun is_dial :: "event \<Rightarrow> bool" where
  "is_dial (EvDial d c n uri conn err) = True"
| "is_dial ev = False"

fun sock_step :: "event \<Rightarrow> net_conn list \<Rightarrow> net_conn list" where
  "sock_step (EvDial d c n uri (Some cn) None) op = op @ [cn]"
| "sock_step (EvClose cn) op = remove1 cn op"
| "sock_step ev op = op"

fun open_socks :: "net_conn list \<Rightarrow> event list \<Rightarrow> net_conn list" where
  "open_socks op [] = op"
| "open_socks op (ev # tr) = open_socks (sock_step ev op) tr"

fun closed_before_next :: "net_conn list \<Rightarrow> event list \<Rightarrow> bool" where
  "closed_before_next op [] = True"
| "closed_before_next op (ev # tr) =
     ((if is_dial ev then op = [] else True) \<and> closed_before_next (sock_step ev op) tr)"

text \<open>
  What one attempt appends to the record: one dial, of the given address, with the
  connector's dialer and the given context; handshakes only with the connector's options;
  nothing left open when a dial starts.
\<close>

definition attempt_events :: "failOver \<Rightarrow> ctx \<Rightarrow> string \<Rightarrow> event list \<Rightarrow> bool" where
  "attempt_events f c uri evs =
     (dial_uris evs = [uri] \<and> dialers evs = [choose_dialer f] \<and> dial_ctxs evs = [c] \<and>
      set (handshake_opts evs) \<subseteq> {login_opts f} \<and> closed_before_next [] evs)"

text \<open>The same for all the attempts of one run of the loop.\<close>

definition loop_events :: "failOver \<Rightarrow> ctx \<Rightarrow> event list \<Rightarrow> bool" where
  "loop_events f c evs =
     (set (dialers evs) \<subseteq> {choose_dialer f} \<and> set (dial_ctxs evs) \<subseteq> {c} \<and>
      set (handshake_opts evs) \<subseteq> {login_opts f} \<and> closed_before_next [] evs)"

text \<open>
  \<open>failed_prefix E c us s\<close> runs the attempts on \<open>us\<close> in order, as the loop does, and
  gives the state they leave when every one of them fails, \<open>None\<close> as soon as one
  succeeds.
\<close>

fun failed_prefix :: "'w env \<Rightarrow> ctx \<Rightarrow> string list \<Rightarrow> 'w sys \<Rightarrow> 'w sys option" where
  "failed_prefix E c [] s = Some s"
| "failed_prefix E c (uri # rest) s =
     (case Dial E c uri s of
        ((conn, Some e), s1) \<Rightarrow> failed_prefix E c rest (log_failed E c uri e s1)
      | ((conn, None), s1) \<Rightarrow> None)"

text \<open>
  The calls as the collaborators themselves see them. \<open>recording E\<close> is the
  environment \<open>E\<close> with a recorder in front of each collaborator: its world is the
  world of \<open>E\<close> paired with the list of the calls received so far, and every call is
  passed on to \<open>E\<close> unchanged after its arguments have been appended to that list.
  What is recorded is therefore what the methods really pass, whatever they write to
  their own record of events.
\<close>

datatype call =
    CallDial dialer ctx string string
  | CallConnect "net_conn option" "conn_opt list"
  | CallClose net_conn
  | CallLog ctx string error string

definition recording :: "'w env \<Rightarrow> ('w \<times> call list) env" where
  "recording E =
     \<lparr>DialContext = (\<lambda>d c n u wc.
        (fst (DialContext E d c n u (fst wc)),
         (snd (DialContext E d c n u (fst wc)), snd wc @ [CallDial d c n u]))),
      gostomp_Connect = (\<lambda>conn opts wc.
        (fst (gostomp_Connect E conn opts (fst wc)),
         (snd (gostomp_Connect E conn opts (fst wc)), snd wc @ [CallConnect conn opts]))),
      Close = (\<lambda>cn wc. (Close E cn (fst wc), snd wc @ [CallClose cn])),
      zlog_Debug = (\<lambda>c u e m wc. (zlog_Debug E c u e m (fst wc), snd wc @ [CallLog c u e m]))\<rparr>"

text \<open>A state of a recorded run without the recorder.\<close>

definition unrec :: "('w \<times> call list) sys \<Rightarrow> 'w sys" where
  "unrec s = \<lparr>world = fst (world s), trace = trace s, connector = connector s\<rparr>"

text \<open>
  The calls received during a run, and their projections: the arguments of the dial
  calls and the option lists of the handshake calls, in call order.
\<close>

definition new_calls :: "('w \<times> call list) sys \<Rightarrow> ('w \<times> call list) sys \<Rightarrow> call list" where
  "new_calls s s' = drop (length (snd (world s))) (snd (world s'))"

fun called_dials :: "call list \<Rightarrow> (dialer \<times> ctx \<times> string \<times> string) list" where
  "called_dials [] = []"
| "called_dials (CallDial d c n u # cs) = (d, c, n, u) # called_dials cs"
| "called_dials (k # cs) = called_dials cs"

fun called_opts :: "call list \<Rightarrow> conn_opt list list" where
  "called_opts [] = []"
| "called_opts (CallConnect conn opts # cs) = opts # called_opts cs"
| "called_opts (k # cs) = called_opts cs"

section \<open>An instrumented fake transport\<close>

text \<open>
  A concrete world to run the methods in: descriptors are handed out in order, broker
  \<^verbatim>\<open>b1:61613\<close> refuses the connection, broker \<^verbatim>\<open>b2:61613\<close> accepts it and rejects
  the handshake, every other broker accepts both. The dialer gives up at once on a
  context that is already done, as \<^verbatim>\<open>net.Dialer\<close> does.
\<close>

record net =
  next_fd :: nat
  open_fds :: "(nat \<times> string) list"
  log_lines :: "(string \<times> string) list"

definition fake_DialContext ::
  "dialer \<Rightarrow> ctx \<Rightarrow> string \<Rightarrow> string \<Rightarrow> net \<Rightarrow> (net_conn option \<times> error option) \<times> net" where
  "fake_DialContext d c network uri w =
     (case Err c of
        Some e \<Rightarrow> ((None, Some (WrapError (''dial tcp '' @ uri @ '': operation was canceled'') e)), w)
      | None \<Rightarrow>
          if uri = ''b1:61613''
          then ((None, Some (ExtError (''dial tcp '' @ uri @ '': connect: connection refused''))), w)
          else ((Some (NetConn (next_fd w)), None),
                w\<lparr>next_fd := Suc (next_fd w), open_fds := (next_fd w, uri) # open_fds w\<rparr>))"

definition fake_Connect ::
  "net_conn option \<Rightarrow> conn_opt list \<Rightarrow> net \<Rightarrow> (stomp_conn option \<times> error option) \<times> net" where
  "fake_Connect conn opts w =
     (case conn of
        None \<Rightarrow> ((None, Some (ExtError ''invalid connection'')), w)
      | Some (NetConn fd) \<Rightarrow>
          (case map_of (open_fds w) fd of
             None \<Rightarrow> ((None, Some (ExtError ''use of closed network connection'')), w)
           | Some peer \<Rightarrow>
               if peer = ''b2:61613''
               then ((None, Some (ExtError ''bad credentials'')), w)
               else ((Some (StompConn fd), None), w)))"

fun fake_Close :: "net_conn \<Rightarrow> net \<Rightarrow> net" where
  "fake_Close (NetConn fd) w = w\<lparr>open_fds := filter (\<lambda>p. fst p \<noteq> fd) (open_fds w)\<rparr>"

definition fake_Debug :: "ctx \<Rightarrow> string \<Rightarrow> error \<Rightarrow> string \<Rightarrow> net \<Rightarrow> net" where
  "fake_Debug c uri e msg w = w\<lparr>log_lines := log_lines w @ [(uri, msg)]\<rparr>"

definition fake_env :: "net env" where
  "fake_env = \<lparr>DialContext = fake_DialContext, gostomp_Connect = fake_Connect,
               Close = fake_Close, zlog_Debug = fake_Debug\<rparr>"

definition three_brokers :: failOver where
  "three_brokers = \<lparr>tls = None, login = Some \<lparr>Login = ''clair'', Passcode = ''secret''\<rparr>,
                    uris = [''b1:61613'', ''b2:61613'', ''b3:61613'']\<rparr>"

definition start :: "failOver \<Rightarrow> net sys" where
  "start f = \<lparr>world = \<lparr>next_fd = 3, open_fds = [], log_lines = []\<rparr>, trace = [], connector = f\<rparr>"

definition background :: ctx where
  "background = \<lparr>Err = None, Values = []\<rparr>"

text \<open>Other connectors and a context that is cancelled before the call.\<close>

definition no_brokers :: failOver where
  "no_brokers = \<lparr>tls = None, login = None, uris = []\<rparr>"

definition failing_brokers :: failOver where
  "failing_brokers = \<lparr>tls = None, login = None, uris = [''b1:61613'', ''b2:61613'']\<rparr>"

definition tls_brokers :: failOver where
  "tls_brokers = \<lparr>tls = Some (TlsConfig ''broker.example''), login = None,
                  uris = [''b2:61613'', ''b3:61613'']\<rparr>"



definition start_recording :: "failOver \<Rightarrow> (net \<times> call list) sys" where
  "start_recording f =
     \<lparr>world = (\<lparr>next_fd = 3, open_fds = [], log_lines = []\<rparr>, []), trace = [], connector = f\<rparr>"

section \<open>How one attempt and the loop behave\<close>

lemma dial_uris_append: "dial_uris (a @ b) = dial_uris a @ dial_uris b"
  by (induction a rule: dial_uris.induct) simp_all

lemma dialers_append: "dialers (a @ b) = dialers a @ dialers b"
  by (induction a rule: dialers.induct) simp_all

lemma dial_ctxs_append: "dial_ctxs (a @ b) = dial_ctxs a @ dial_ctxs b"
  by (induction a rule: dial_ctxs.induct) simp_all

lemma opened_append: "opened (a @ b) = opened a @ opened b"
  by (induction a rule: opened.induct) simp_all

lemma handshake_opts_append: "handshake_opts (a @ b) = handshake_opts a @ handshake_opts b"
  by (induction a rule: handshake_opts.induct) simp_all

lemma open_socks_append: "open_socks op (a @ b) = open_socks (open_socks op a) b"
  by (induction a arbitrary: op) simp_all

lemma closed_before_next_append:
  "closed_before_next op (a @ b) =
     (closed_before_next op a \<and> closed_before_next (open_socks op a) b)"
  by (induction a arbitrary: op) auto

lemma new_events_ext: "trace s' = trace s @ evs \<Longrightarrow> new_events s s' = evs"
  by (simp add: new_events_def)

lemma Dial_dial_err:
  assumes "DialContext E (choose_dialer (connector s)) c ''tcp'' uri (world s) = ((conn, Some e), w1)"
  shows "Dial E c uri s =
    ((None, Some (WrapError (''failed to connect to broker @ '' @ uri @ '': '' @ Error e) e)),
     s\<lparr>world := w1, trace := trace s @ [EvDial (choose_dialer (connector s)) c ''tcp'' uri conn (Some e)]\<rparr>)"
  using assms by (simp add: Dial_def Let_def)

lemma Dial_handshake_err_close:
  assumes "DialContext E (choose_dialer (connector s)) c ''tcp'' uri (world s) = ((Some cn, None), w1)"
    and "gostomp_Connect E (Some cn) (login_opts (connector s)) w1 = ((sc, Some e), w2)"
  shows "Dial E c uri s =
    ((None, Some (WrapError (''stomp connect handshake to broker @ '' @ uri @ '' failed: '' @ Error e) e)),
     s\<lparr>world := Close E cn w2,
       trace := trace s @ [EvDial (choose_dialer (connector s)) c ''tcp'' uri (Some cn) None,
                           EvConnect (Some cn) (login_opts (connector s)) sc (Some e),
                           EvClose cn]\<rparr>)"
  using assms by (simp add: Dial_def Let_def)

lemma Dial_handshake_err_nil:
  assumes "DialContext E (choose_dialer (connector s)) c ''tcp'' uri (world s) = ((None, None), w1)"
    and "gostomp_Connect E None (login_opts (connector s)) w1 = ((sc, Some e), w2)"
  shows "Dial E c uri s =
    ((None, Some (WrapError (''stomp connect handshake to broker @ '' @ uri @ '' failed: '' @ Error e) e)),
     s\<lparr>world := w2,
       trace := trace s @ [EvDial (choose_dialer (connector s)) c ''tcp'' uri None None,
                           EvConnect None (login_opts (connector s)) sc (Some e)]\<rparr>)"
  using assms by (simp add: Dial_def Let_def)

lemma Dial_ok:
  assumes "DialContext E (choose_dialer (connector s)) c ''tcp'' uri (world s) = ((conn, None), w1)"
    and "gostomp_Connect E conn (login_opts (connector s)) w1 = ((sc, None), w2)"
  shows "Dial E c uri s =
    ((sc, None),
     s\<lparr>world := w2,
       trace := trace s @ [EvDial (choose_dialer (connector s)) c ''tcp'' uri conn None,
                           EvConnect conn (login_opts (connector s)) sc None]\<rparr>)"
  using assms by (simp add: Dial_def Let_def)

text \<open>The four ways one attempt can go, by what the collaborators answer.\<close>

lemma Dial_cases [case_names dial_err hs_err_close hs_err_nil ok]:
  obtains
    (dial_err) conn e w1 where
      "DialContext E (choose_dialer (connector s)) c ''tcp'' uri (world s) = ((conn, Some e), w1)"
  | (hs_err_close) cn w1 sc e w2 where
      "DialContext E (choose_dialer (connector s)) c ''tcp'' uri (world s) = ((Some cn, None), w1)"
      "gostomp_Connect E (Some cn) (login_opts (connector s)) w1 = ((sc, Some e), w2)"
  | (hs_err_nil) w1 sc e w2 where
      "DialContext E (choose_dialer (connector s)) c ''tcp'' uri (world s) = ((None, None), w1)"
      "gostomp_Connect E None (login_opts (connector s)) w1 = ((sc, Some e), w2)"
  | (ok) conn w1 sc w2 where
      "DialContext E (choose_dialer (connector s)) c ''tcp'' uri (world s) = ((conn, None), w1)"
      "gostomp_Connect E conn (login_opts (connector s)) w1 = ((sc, None), w2)"
proof -
  obtain conn err w1 where
    d: "DialContext E (choose_dialer (connector s)) c ''tcp'' uri (world s) = ((conn, err), w1)"
    by (metis prod.collapse)
  obtain sc err2 w2 where
    h: "gostomp_Connect E conn (login_opts (connector s)) w1 = ((sc, err2), w2)"
    by (metis prod.collapse)
  show thesis
  proof (cases err)
    case (Some e)
    with d dial_err show ?thesis by blast
  next
    case None
    note dn = this
    show ?thesis
    proof (cases err2)
      case None
      with d h dn ok show ?thesis by blast
    next
      case (Some e2)
      show ?thesis
      proof (cases conn)
        case None
        with d h dn Some hs_err_nil show ?thesis by blast
      next
        case (Some cn)
        with d h dn \<open>err2 = Some e2\<close> hs_err_close show ?thesis by blast
      qed
    qed
  qed
qed


lemma Dial_trace:
  "\<exists>evs. trace (snd (Dial E c uri s)) = trace s @ evs \<and> attempt_events (connector s) c uri evs \<and>
     (snd (fst (Dial E c uri s)) \<noteq> None \<longrightarrow> open_socks [] evs = [])"
proof (cases rule: Dial_cases [of E s c uri])
  case (dial_err conn e w1)
  show ?thesis
    by (cases conn) (simp_all add: Dial_dial_err [OF dial_err] attempt_events_def)
next
  case (hs_err_close cn w1 sc e w2)
  show ?thesis
    by (simp add: Dial_handshake_err_close [OF hs_err_close] attempt_events_def)
next
  case (hs_err_nil w1 sc e w2)
  show ?thesis
    by (simp add: Dial_handshake_err_nil [OF hs_err_nil] attempt_events_def)
next
  case (ok conn w1 sc w2)
  show ?thesis
    by (cases conn) (simp_all add: Dial_ok [OF ok] attempt_events_def)
qed


lemma Dial_connector: "connector (snd (Dial E c uri s)) = connector s"
  by (simp add: Dial_def Let_def split: prod.splits option.splits)

lemma log_failed_connector: "connector (log_failed E c uri e s) = connector s"
  by (simp add: log_failed_def)

lemma log_failed_trace:
  "trace (log_failed E c uri e s) = trace s @ [EvLog c uri e ''failed to dial broker. attempting next'']"
  by (simp add: log_failed_def)

lemma Connection_loop_connector: "connector (snd (Connection_loop E c us s)) = connector s"
proof (induction us arbitrary: s)
  case Nil
  show ?case by simp
next
  case (Cons u us)
  obtain r e s1 where d: "Dial E c u s = ((r, e), s1)" by (metis prod.collapse)
  have c1: "connector s1 = connector s" using Dial_connector [of E c u s] d by simp
  show ?case
  proof (cases e)
    case None
    with d c1 show ?thesis by simp
  next
    case (Some x)
    with d c1 Cons.IH [of "log_failed E c u x s1"] show ?thesis
      by (simp add: log_failed_connector)
  qed
qed


lemma Connection_loop_trace:
  "\<exists>evs. trace (snd (Connection_loop E c us s)) = trace s @ evs \<and> loop_events (connector s) c evs \<and>
     (snd (fst (Connection_loop E c us s)) \<noteq> None \<longrightarrow> open_socks [] evs = [])"
proof (induction us arbitrary: s)
  case Nil
  show ?case by (simp add: loop_events_def)
next
  case (Cons u us)
  obtain r e s1 where d: "Dial E c u s = ((r, e), s1)" by (metis prod.collapse)
  obtain evs1 where t1: "trace s1 = trace s @ evs1"
    and a1: "attempt_events (connector s) c u evs1"
    and o1: "e \<noteq> None \<longrightarrow> open_socks [] evs1 = []"
    using Dial_trace [of E c u s] d by auto
  have c1: "connector s1 = connector s" using Dial_connector [of E c u s] d by simp
  show ?case
  proof (cases e)
    case None
    have "Connection_loop E c (u # us) s = ((r, None), s1)"
      using d None by simp
    with t1 a1 show ?thesis by (auto simp: loop_events_def attempt_events_def)
  next
    case (Some x)
    let ?s2 = "log_failed E c u x s1"
    have eq: "Connection_loop E c (u # us) s = Connection_loop E c us ?s2"
      using d Some by simp
    obtain evs2 where t2: "trace (snd (Connection_loop E c us ?s2)) = trace ?s2 @ evs2"
      and l2: "loop_events (connector ?s2) c evs2"
      and o2: "snd (fst (Connection_loop E c us ?s2)) \<noteq> None \<longrightarrow> open_socks [] evs2 = []"
      using Cons.IH [of ?s2] by blast
    have c2: "connector ?s2 = connector s" using c1 by (simp add: log_failed_connector)
    have o1': "open_socks [] evs1 = []" using o1 Some by simp
    let ?evs = "evs1 @ EvLog c u x ''failed to dial broker. attempting next'' # evs2"
    have t: "trace (snd (Connection_loop E c (u # us) s)) = trace s @ ?evs"
      using eq t2 t1 by (simp add: log_failed_trace)
    have l: "loop_events (connector s) c ?evs"
      using a1 l2 c2 o1'
      by (simp add: loop_events_def attempt_events_def dialers_append dial_ctxs_append
          handshake_opts_append closed_before_next_append)
    have o: "snd (fst (Connection_loop E c (u # us) s)) \<noteq> None \<longrightarrow> open_socks [] ?evs = []"
      using o2 o1' eq by (simp add: open_socks_append)
    from t l o show ?thesis by blast
  qed
qed

lemma failed_prefix_loop:
  "failed_prefix E c pre s = Some s1 \<Longrightarrow>
   Connection_loop E c (pre @ rest) s = Connection_loop E c rest s1"
proof (induction pre arbitrary: s)
  case Nil
  then show ?case by simp
next
  case (Cons u pre)
  obtain r e s2 where d: "Dial E c u s = ((r, e), s2)" by (metis prod.collapse)
  show ?case
  proof (cases e)
    case None
    with d Cons.prems show ?thesis by simp
  next
    case (Some x)
    with d Cons.prems have "failed_prefix E c pre (log_failed E c u x s2) = Some s1" by simp
    from Cons.IH [OF this] d Some show ?thesis by simp
  qed
qed

lemma failed_prefix_trace:
  "failed_prefix E c pre s = Some s1 \<Longrightarrow>
   \<exists>evs. trace s1 = trace s @ evs \<and> dial_uris evs = pre"
proof (induction pre arbitrary: s)
  case Nil
  then show ?case by simp
next
  case (Cons u pre)
  obtain r e s2 where d: "Dial E c u s = ((r, e), s2)" by (metis prod.collapse)
  obtain evs1 where t1: "trace s2 = trace s @ evs1"
    and a1: "attempt_events (connector s) c u evs1"
    using Dial_trace [of E c u s] d by auto
  show ?case
  proof (cases e)
    case None
    with d Cons.prems show ?thesis by simp
  next
    case (Some x)
    with d Cons.prems have "failed_prefix E c pre (log_failed E c u x s2) = Some s1" by simp
    from Cons.IH [OF this] obtain evs2 where
      t2: "trace s1 = trace (log_failed E c u x s2) @ evs2" and u2: "dial_uris evs2 = pre"
      by blast
    have "trace s1 = trace s @ (evs1 @ EvLog c u x ''failed to dial broker. attempting next'' # evs2)"
      using t1 t2 by (simp add: log_failed_trace)
    moreover have "dial_uris (evs1 @ EvLog c u x ''failed to dial broker. attempting next'' # evs2) = u # pre"
      using a1 u2 by (simp add: dial_uris_append attempt_events_def)
    ultimately show ?thesis by blast
  qed
qed


lemma Connection_trace:
  "\<exists>evs. trace (snd (Connection E c s)) = trace s @ evs \<and>
     loop_events (connector s) (loop_ctx c) evs \<and>
     (snd (fst (Connection E c s)) \<noteq> None \<longrightarrow> open_socks [] evs = [])"
  unfolding Connection_def by (rule Connection_loop_trace)

text \<open>A result without an error comes from a handshake that returned it without an error.\<close>

lemma Dial_success:
  assumes "Dial E c uri s = ((r, None), s')"
  shows "\<exists>conn w. gostomp_Connect E conn (login_opts (connector s)) w = ((r, None), world s') \<and>
           trace s' = trace s @ [EvDial (choose_dialer (connector s)) c ''tcp'' uri conn None,
                                 EvConnect conn (login_opts (connector s)) r None]"
proof (cases rule: Dial_cases [of E s c uri])
  case (dial_err conn e w1)
  with assms show ?thesis by (simp add: Dial_dial_err [OF dial_err])
next
  case (hs_err_close cn w1 sc e w2)
  with assms show ?thesis by (simp add: Dial_handshake_err_close [OF hs_err_close])
next
  case (hs_err_nil w1 sc e w2)
  with assms show ?thesis by (simp add: Dial_handshake_err_nil [OF hs_err_nil])
next
  case (ok conn w1 sc w2)
  let ?t = "s\<lparr>world := w2,
       trace := trace s @ [EvDial (choose_dialer (connector s)) c ''tcp'' uri conn None,
                           EvConnect conn (login_opts (connector s)) sc None]\<rparr>"
  have "((r, None), s') = Dial E c uri s"
    using assms by (rule sym)
  also have "\<dots> = ((sc, None), ?t)"
    by (rule Dial_ok [OF ok])
  finally have "((r, None :: error option), s') = ((sc, None), ?t)" .
  then have r: "r = sc" and s': "s' = ?t"
    by blast+
  from ok(2) r s' show ?thesis by auto
qed

lemma Connection_loop_success:
  "Connection_loop E c us s = ((r, None), s') \<Longrightarrow>
   \<exists>conn w evs. gostomp_Connect E conn (login_opts (connector s)) w = ((r, None), world s') \<and>
      trace s' = trace s @ evs @ [EvConnect conn (login_opts (connector s)) r None]"
proof (induction us arbitrary: s)
  case Nil
  then show ?case by simp
next
  case (Cons u us)
  obtain r1 e s1 where d: "Dial E c u s = ((r1, e), s1)" by (metis prod.collapse)
  show ?case
  proof (cases e)
    case None
    with d Cons.prems have "Dial E c u s = ((r, None), s')" by simp
    from Dial_success [OF this] obtain conn w where
      h: "gostomp_Connect E conn (login_opts (connector s)) w = ((r, None), world s')"
      and t: "trace s' = trace s @ [EvDial (choose_dialer (connector s)) c ''tcp'' u conn None] @
                [EvConnect conn (login_opts (connector s)) r None]"
      by auto
    from h t show ?thesis by blast
  next
    case (Some x)
    let ?s2 = "log_failed E c u x s1"
    from d Some Cons.prems have "Connection_loop E c us ?s2 = ((r, None), s')" by simp
    from Cons.IH [OF this] obtain conn w evs where
      h: "gostomp_Connect E conn (login_opts (connector ?s2)) w = ((r, None), world s')"
      and t: "trace s' = trace ?s2 @ evs @ [EvConnect conn (login_opts (connector ?s2)) r None]"
      by blast
    have c2: "connector ?s2 = connector s"
      using Dial_connector [of E c u s] d by (simp add: log_failed_connector)
    obtain evs1 where t1: "trace s1 = trace s @ evs1"
      using Dial_trace [of E c u s] d by auto
    have t': "trace s' = trace s @ (evs1 @ EvLog c u x ''failed to dial broker. attempting next'' # evs)
            @ [EvConnect conn (login_opts (connector s)) r None]"
      using t t1 c2 by (simp add: log_failed_trace)
    have h': "gostomp_Connect E conn (login_opts (connector s)) w = ((r, None), world s')"
      using h c2 by simp
    from h' t' show ?thesis by blast
  qed
qed





text \<open>The recorded calls.\<close>

lemma called_dials_append: "called_dials (a @ b) = called_dials a @ called_dials b"
  by (induction a rule: called_dials.induct) simp_all

lemma called_opts_append: "called_opts (a @ b) = called_opts a @ called_opts b"
  by (induction a rule: called_opts.induct) simp_all

lemma new_calls_ext: "snd (world s') = snd (world s) @ cs \<Longrightarrow> new_calls s s' = cs"
  by (simp add: new_calls_def)

lemma recording_DialContext:
  "DialContext (recording E) d c n u wc = (r, wc') \<Longrightarrow>
   fst (DialContext E d c n u (fst wc)) = r \<and> snd (DialContext E d c n u (fst wc)) = fst wc' \<and>
   snd wc' = snd wc @ [CallDial d c n u]"
  by (auto simp: recording_def)

lemma recording_Connect:
  "gostomp_Connect (recording E) conn opts wc = (r, wc') \<Longrightarrow>
   fst (gostomp_Connect E conn opts (fst wc)) = r \<and> snd (gostomp_Connect E conn opts (fst wc)) = fst wc' \<and>
   snd wc' = snd wc @ [CallConnect conn opts]"
  by (auto simp: recording_def)

lemma recording_Close: "snd (Close (recording E) cn wc) = snd wc @ [CallClose cn]"
  by (simp add: recording_def)

lemma recording_Debug: "snd (zlog_Debug (recording E) c u e m wc) = snd wc @ [CallLog c u e m]"
  by (simp add: recording_def)

text \<open>The calls the collaborators receive from one attempt.\<close>

lemma Dial_calls:
  "\<exists>cs. snd (world (snd (Dial (recording E) c uri s))) = snd (world s) @ cs \<and>
     called_dials cs = [(choose_dialer (connector s), c, ''tcp'', uri)] \<and>
     called_opts cs =
       (if snd (fst (DialContext E (choose_dialer (connector s)) c ''tcp'' uri (fst (world s)))) = None
        then [login_opts (connector s)] else [])"
proof (cases rule: Dial_cases [of "recording E" s c uri])
  case (dial_err conn e w1)
  from recording_DialContext [OF dial_err] show ?thesis
    by (simp add: Dial_dial_err [OF dial_err])
next
  case (hs_err_close cn w1 sc e w2)
  from recording_DialContext [OF hs_err_close(1)] recording_Connect [OF hs_err_close(2)]
  show ?thesis
    by (simp add: Dial_handshake_err_close [OF hs_err_close] recording_Close)
next
  case (hs_err_nil w1 sc e w2)
  from recording_DialContext [OF hs_err_nil(1)] recording_Connect [OF hs_err_nil(2)]
  show ?thesis
    by (simp add: Dial_handshake_err_nil [OF hs_err_nil])
next
  case (ok conn w1 sc w2)
  from recording_DialContext [OF ok(1)] recording_Connect [OF ok(2)]
  show ?thesis
    by (simp add: Dial_ok [OF ok])
qed


lemma log_failed_calls:
  "snd (world (log_failed (recording E) c u e s)) =
     snd (world s) @ [CallLog c u e ''failed to dial broker. attempting next'']"
  by (simp add: log_failed_def recording_Debug)

text \<open>The calls the collaborators receive from one run of the loop.\<close>

lemma Connection_loop_calls:
  "\<exists>cs. snd (world (snd (Connection_loop (recording E) c us s))) = snd (world s) @ cs \<and>
     fst ` set (called_dials cs) \<subseteq> {choose_dialer (connector s)} \<and>
     set (called_opts cs) \<subseteq> {login_opts (connector s)}"
proof (induction us arbitrary: s)
  case Nil
  show ?case by simp
next
  case (Cons u us)
  obtain r e s1 where d: "Dial (recording E) c u s = ((r, e), s1)" by (metis prod.collapse)
  obtain cs1 where k1: "snd (world s1) = snd (world s) @ cs1"
    and d1: "called_dials cs1 = [(choose_dialer (connector s), c, ''tcp'', u)]"
    and o1: "set (called_opts cs1) \<subseteq> {login_opts (connector s)}"
    using Dial_calls [of E c u s] d by (auto split: if_splits)
  have c1: "connector s1 = connector s" using Dial_connector [of "recording E" c u s] d by simp
  show ?case
  proof (cases e)
    case None
    have "Connection_loop (recording E) c (u # us) s = ((r, None), s1)"
      using d None by simp
    with k1 d1 o1 show ?thesis by auto
  next
    case (Some x)
    let ?s2 = "log_failed (recording E) c u x s1"
    have eq: "Connection_loop (recording E) c (u # us) s = Connection_loop (recording E) c us ?s2"
      using d Some by simp
    obtain cs2 where k2: "snd (world (snd (Connection_loop (recording E) c us ?s2))) = snd (world ?s2) @ cs2"
      and d2: "fst ` set (called_dials cs2) \<subseteq> {choose_dialer (connector ?s2)}"
      and o2: "set (called_opts cs2) \<subseteq> {login_opts (connector ?s2)}"
      using Cons.IH [of ?s2] by blast
    have c2: "connector ?s2 = connector s" using c1 by (simp add: log_failed_connector)
    let ?cs = "cs1 @ CallLog c u x ''failed to dial broker. attempting next'' # cs2"
    have k: "snd (world (snd (Connection_loop (recording E) c (u # us) s))) = snd (world s) @ ?cs"
      using eq k2 k1 by (simp add: log_failed_calls)
    have dd: "fst ` set (called_dials ?cs) \<subseteq> {choose_dialer (connector s)}"
      using d1 d2 c2 by (simp add: called_dials_append)
    have oo: "set (called_opts ?cs) \<subseteq> {login_opts (connector s)}"
      using o1 o2 c2 by (simp add: called_opts_append)
    from k dd oo show ?thesis by blast
  qed
qed

text \<open>
  Recording changes nothing: a run against \<open>recording E\<close> returns what the run against
  \<open>E\<close> returns and leaves the world of \<open>E\<close>, the record of events and the connector as
  that run leaves them.
\<close>

lemma Dial_recording:
  "fst (Dial (recording E) c uri s) = fst (Dial E c uri (unrec s)) \<and>
   unrec (snd (Dial (recording E) c uri s)) = snd (Dial E c uri (unrec s))"
  by (simp add: Dial_def recording_def unrec_def Let_def split: prod.splits option.splits)

lemma log_failed_recording:
  "unrec (log_failed (recording E) c u e s) = log_failed E c u e (unrec s)"
  by (simp add: log_failed_def recording_def unrec_def)

lemma Connection_loop_recording:
  "fst (Connection_loop (recording E) c us s) = fst (Connection_loop E c us (unrec s)) \<and>
   unrec (snd (Connection_loop (recording E) c us s)) = snd (Connection_loop E c us (unrec s))"
proof (induction us arbitrary: s)
  case Nil
  show ?case by simp
next
  case (Cons u us)
  obtain r e s1 where d: "Dial (recording E) c u s = ((r, e), s1)" by (metis prod.collapse)
  have d': "Dial E c u (unrec s) = ((r, e), unrec s1)"
    using Dial_recording [of E c u s] d by (metis fst_conv snd_conv prod.collapse)
  show ?case
  proof (cases e)
    case None
    with d d' show ?thesis by simp
  next
    case (Some x)
    with d d' Cons.IH [of "log_failed (recording E) c u x s1"] show ?thesis
      by (simp add: log_failed_recording)
  qed
qed

lemma Connection_recording:
  "fst (Connection (recording E) c s) = fst (Connection E c (unrec s)) \<and>
   unrec (snd (Connection (recording E) c s)) = snd (Connection E c (unrec s))"
  using Connection_loop_recording [of E "loop_ctx c" "uris (connector s)" s]
  by (simp add: Connection_def unrec_def)



section \<open>The properties of the specification\<close>

text \<open>
  C1. When the attempts on the addresses before position k all fail and the attempt on
  the address at position k succeeds, \<^verbatim>\<open>Connection\<close> returns what that attempt
  returned, and the addresses it dialled are exactly the first k of the list, once each
  and in list order: nothing after position k is dialled.
\<close>

theorem Connection_first_success:
  assumes "uris (connector s) = pre @ u # post"
    and "failed_prefix E (loop_ctx c) pre s = Some s1"
    and "Dial E (loop_ctx c) u s1 = ((conn, None), s2)"
  shows "Connection E c s = ((conn, None), s2) \<and> dial_uris (new_events s s2) = pre @ [u]"
proof -
  have "Connection E c s = Connection_loop E (loop_ctx c) (u # post) s1"
    using assms(1) failed_prefix_loop [OF assms(2)] by (simp add: Connection_def)
  then have r: "Connection E c s = ((conn, None), s2)"
    using assms(3) by simp
  obtain evs1 where t1: "trace s1 = trace s @ evs1" and u1: "dial_uris evs1 = pre"
    using failed_prefix_trace [OF assms(2)] by blast
  obtain evs2 where t2: "trace s2 = trace s1 @ evs2"
    and a2: "attempt_events (connector s1) (loop_ctx c) u evs2"
    using Dial_trace [of E "loop_ctx c" u s1] assms(3) by auto
  have "new_events s s2 = evs1 @ evs2"
    using t1 t2 by (simp add: new_events_def)
  then have "dial_uris (new_events s s2) = pre @ [u]"
    using u1 a2 by (simp add: dial_uris_append attempt_events_def)
  with r show ?thesis by simp
qed

theorem Connection_first_success_witness:
  "fst (Connection fake_env background (start three_brokers)) = (Some (StompConn 4), None) \<and>
   dial_uris (trace (snd (Connection fake_env background (start three_brokers))))
     = [''b1:61613'', ''b2:61613'', ''b3:61613'']"
proof -
  let ?s = "start three_brokers"
  let ?s1 = "the (failed_prefix fake_env (loop_ctx background) [''b1:61613'', ''b2:61613''] ?s)"
  let ?s2 = "snd (Dial fake_env (loop_ctx background) ''b3:61613'' ?s1)"
  have h1: "uris (connector ?s) = [''b1:61613'', ''b2:61613''] @ ''b3:61613'' # []"
    by code_simp
  have h2: "failed_prefix fake_env (loop_ctx background) [''b1:61613'', ''b2:61613''] ?s = Some ?s1"
    by code_simp
  have h3: "Dial fake_env (loop_ctx background) ''b3:61613'' ?s1 = ((Some (StompConn 4), None), ?s2)"
    by code_simp
  have t: "trace ?s = []" by code_simp
  from Connection_first_success [OF h1 h2 h3] t show ?thesis
    by (simp add: new_events_def)
qed

text \<open>
  C2. When the attempt on every address of the list fails, \<^verbatim>\<open>Connection\<close> returns no
  connection and the exhaustion error, and the addresses it dialled are exactly the list:
  every address once, in list order, none twice.
\<close>

theorem Connection_all_fail:
  assumes "failed_prefix E (loop_ctx c) (uris (connector s)) s = Some s1"
  shows "Connection E c s = ((None, Some Exhausted), s1) \<and>
         dial_uris (new_events s s1) = uris (connector s)"
proof -
  have "Connection_loop E (loop_ctx c) (uris (connector s) @ []) s =
        Connection_loop E (loop_ctx c) [] s1"
    by (rule failed_prefix_loop [OF assms])
  then have r: "Connection E c s = ((None, Some Exhausted), s1)"
    by (simp add: Connection_def)
  obtain evs where "trace s1 = trace s @ evs" and "dial_uris evs = uris (connector s)"
    using failed_prefix_trace [OF assms] by blast
  then have "dial_uris (new_events s s1) = uris (connector s)"
    by (simp add: new_events_def)
  with r show ?thesis by simp
qed

theorem Connection_all_fail_witness:
  "fst (Connection fake_env background (start failing_brokers)) = (None, Some Exhausted) \<and>
   dial_uris (trace (snd (Connection fake_env background (start failing_brokers))))
     = [''b1:61613'', ''b2:61613'']"
proof -
  let ?s = "start failing_brokers"
  let ?s1 = "the (failed_prefix fake_env (loop_ctx background) (uris (connector ?s)) ?s)"
  have h: "failed_prefix fake_env (loop_ctx background) (uris (connector ?s)) ?s = Some ?s1"
    by code_simp
  have t: "trace ?s = []" by code_simp
  have u: "uris (connector ?s) = [''b1:61613'', ''b2:61613'']" by code_simp
  from Connection_all_fail [OF h] t u show ?thesis
    by (simp add: new_events_def)
qed





text \<open>
  C4. When the dial of an attempt returns a transport connection without error and the
  handshake over it fails, \<^verbatim>\<open>Dial\<close> closes that connection after the handshake and
  before it returns its error; the close is the last thing the attempt does. Hence, in
  every run of \<^verbatim>\<open>Connection\<close>, no socket of an earlier attempt is open when a dial
  starts, and none is open when \<^verbatim>\<open>Connection\<close> returns an error.
\<close>

theorem failed_handshake_closes_transport:
  assumes "DialContext E (choose_dialer (connector s)) c ''tcp'' uri (world s) = ((Some cn, None), w1)"
    and "gostomp_Connect E (Some cn) (login_opts (connector s)) w1 = ((sc, Some e), w2)"
  shows "fst (Dial E c uri s) =
           (None, Some (WrapError (''stomp connect handshake to broker @ '' @ uri @ '' failed: '' @ Error e) e)) \<and>
         world (snd (Dial E c uri s)) = Close E cn w2 \<and>
         new_events s (snd (Dial E c uri s)) =
           [EvDial (choose_dialer (connector s)) c ''tcp'' uri (Some cn) None,
            EvConnect (Some cn) (login_opts (connector s)) sc (Some e),
            EvClose cn] \<and>
         closed_before_next [] (new_events s (snd (Connection E c s))) \<and>
         (snd (fst (Connection E c s)) \<noteq> None \<longrightarrow>
            open_socks [] (new_events s (snd (Connection E c s))) = [])"
proof -
  note d = Dial_handshake_err_close [OF assms]
  have a: "fst (Dial E c uri s) =
           (None, Some (WrapError (''stomp connect handshake to broker @ '' @ uri @ '' failed: '' @ Error e) e))"
    by (simp add: d)
  have b: "world (snd (Dial E c uri s)) = Close E cn w2"
    by (simp add: d)
  have n: "new_events s (snd (Dial E c uri s)) =
           [EvDial (choose_dialer (connector s)) c ''tcp'' uri (Some cn) None,
            EvConnect (Some cn) (login_opts (connector s)) sc (Some e),
            EvClose cn]"
    by (simp add: d new_events_def)
  obtain evs where t: "trace (snd (Connection E c s)) = trace s @ evs"
    and l: "loop_events (connector s) (loop_ctx c) evs"
    and o: "snd (fst (Connection E c s)) \<noteq> None \<longrightarrow> open_socks [] evs = []"
    using Connection_trace [of E c s] by blast
  have ne: "new_events s (snd (Connection E c s)) = evs"
    using t by (rule new_events_ext)
  have m: "closed_before_next [] (new_events s (snd (Connection E c s)))"
    using l ne by (simp add: loop_events_def)
  from a b n m o ne show ?thesis by simp
qed

theorem failed_handshake_closes_transport_witness:
  "new_events (start failing_brokers) (snd (Dial fake_env background ''b2:61613'' (start failing_brokers))) =
     [EvDial (NetDialer \<lparr>Timeout = 2000000000\<rparr>) background ''tcp'' ''b2:61613'' (Some (NetConn 3)) None,
      EvConnect (Some (NetConn 3)) [] None (Some (ExtError ''bad credentials'')),
      EvClose (NetConn 3)] \<and>
   open_fds (world (snd (Dial fake_env background ''b2:61613'' (start failing_brokers)))) = [] \<and>
   closed_before_next [] (new_events (start failing_brokers)
     (snd (Connection fake_env background (start failing_brokers)))) \<and>
   open_socks [] (new_events (start failing_brokers)
     (snd (Connection fake_env background (start failing_brokers)))) = []"
proof -
  let ?s = "start failing_brokers"
  let ?w1 = "\<lparr>next_fd = 4, open_fds = [(3, ''b2:61613'')], log_lines = []\<rparr>"
  have h1: "DialContext fake_env (choose_dialer (connector ?s)) background ''tcp'' ''b2:61613'' (world ?s)
              = ((Some (NetConn 3), None), ?w1)"
    by code_simp
  have h2: "gostomp_Connect fake_env (Some (NetConn 3)) (login_opts (connector ?s)) ?w1
              = ((None, Some (ExtError ''bad credentials'')), ?w1)"
    by code_simp
  have e: "snd (fst (Connection fake_env background ?s)) \<noteq> None" by code_simp
  have k: "choose_dialer (connector ?s) = NetDialer \<lparr>Timeout = 2000000000\<rparr>" by code_simp
  have o: "login_opts (connector ?s) = []" by code_simp
  have f: "open_fds (Close fake_env (NetConn 3) ?w1) = []" by code_simp
  from failed_handshake_closes_transport [OF h1 h2] e k o f show ?thesis
    by simp
qed

text \<open>
  C5. With an empty address list \<^verbatim>\<open>Connection\<close> returns no connection and the
  exhaustion error, and leaves the state as it was: no collaborator is called, so no dial
  is attempted.
\<close>

theorem Connection_empty:
  assumes "uris (connector s) = []"
  shows "Connection E c s = ((None, Some Exhausted), s) \<and>
         new_events s (snd (Connection E c s)) = []"
  using assms by (simp add: Connection_def new_events_def)

theorem Connection_empty_witness:
  "uris (connector (start no_brokers)) = [] \<and>
   Connection fake_env background (start no_brokers) = ((None, Some Exhausted), start no_brokers) \<and>
   new_events (start no_brokers) (snd (Connection fake_env background (start no_brokers))) = []"
proof -
  have h: "uris (connector (start no_brokers)) = []"
    by (simp add: start_def no_brokers_def)
  from Connection_empty [OF h, of fake_env background] h show ?thesis by blast
qed


text \<open>
  C6. A result without an error is never produced before the handshake has succeeded:
  when \<^verbatim>\<open>Dial\<close> returns a nil error, what it returns is what \<^verbatim>\<open>gostomp.Connect\<close>
  returned, with a nil error, as the last call of the attempt, after the dial; when
  \<^verbatim>\<open>Connection\<close> returns a nil error, what it returns is what \<^verbatim>\<open>gostomp.Connect\<close>
  returned, with a nil error, as the last call of the run.
\<close>

theorem connection_only_after_handshake:
  "(Dial E c uri s = ((r, None), s') \<longrightarrow>
      (\<exists>conn w. gostomp_Connect E conn (login_opts (connector s)) w = ((r, None), world s') \<and>
         new_events s s' = [EvDial (choose_dialer (connector s)) c ''tcp'' uri conn None,
                            EvConnect conn (login_opts (connector s)) r None])) \<and>
   (Connection E c s = ((r, None), s') \<longrightarrow>
      (\<exists>conn w evs. gostomp_Connect E conn (login_opts (connector s)) w = ((r, None), world s') \<and>
         new_events s s' = evs @ [EvConnect conn (login_opts (connector s)) r None]))"
proof (intro conjI impI)
  assume "Dial E c uri s = ((r, None), s')"
  from Dial_success [OF this] obtain conn w where
    h: "gostomp_Connect E conn (login_opts (connector s)) w = ((r, None), world s')"
    and t: "trace s' = trace s @ [EvDial (choose_dialer (connector s)) c ''tcp'' uri conn None,
                                  EvConnect conn (login_opts (connector s)) r None]"
    by blast
  from t have "new_events s s' = [EvDial (choose_dialer (connector s)) c ''tcp'' uri conn None,
                                  EvConnect conn (login_opts (connector s)) r None]"
    by (rule new_events_ext)
  with h show "\<exists>conn w. gostomp_Connect E conn (login_opts (connector s)) w = ((r, None), world s') \<and>
         new_events s s' = [EvDial (choose_dialer (connector s)) c ''tcp'' uri conn None,
                            EvConnect conn (login_opts (connector s)) r None]"
    by blast
next
  assume "Connection E c s = ((r, None), s')"
  then have "Connection_loop E (loop_ctx c) (uris (connector s)) s = ((r, None), s')"
    by (simp add: Connection_def)
  from Connection_loop_success [OF this] obtain conn w evs where
    h: "gostomp_Connect E conn (login_opts (connector s)) w = ((r, None), world s')"
    and t: "trace s' = trace s @ evs @ [EvConnect conn (login_opts (connector s)) r None]"
    by blast
  from t have "new_events s s' = evs @ [EvConnect conn (login_opts (connector s)) r None]"
    by (rule new_events_ext)
  with h show "\<exists>conn w evs. gostomp_Connect E conn (login_opts (connector s)) w = ((r, None), world s') \<and>
         new_events s s' = evs @ [EvConnect conn (login_opts (connector s)) r None]"
    by blast
qed

theorem connection_only_after_handshake_witness:
  "fst (Connection fake_env background (start three_brokers)) = (Some (StompConn 4), None) \<and>
   last (trace (snd (Connection fake_env background (start three_brokers)))) =
     EvConnect (Some (NetConn 4)) [ConnOpt_Login ''clair'' ''secret''] (Some (StompConn 4)) None"
proof -
  let ?s = "start three_brokers"
  let ?s' = "snd (Connection fake_env background ?s)"
  have h: "Connection fake_env background ?s = ((Some (StompConn 4), None), ?s')"
    by code_simp
  have t: "trace ?s = []" by code_simp
  have o: "login_opts (connector ?s) = [ConnOpt_Login ''clair'' ''secret'']" by code_simp
  from connection_only_after_handshake [of fake_env background "''b3:61613''" ?s "Some (StompConn 4)" ?s'] h
  obtain conn evs where
    e: "new_events ?s ?s' = evs @ [EvConnect conn (login_opts (connector ?s)) (Some (StompConn 4)) None]"
    by blast
  with t o have l: "last (trace ?s') = EvConnect conn [ConnOpt_Login ''clair'' ''secret''] (Some (StompConn 4)) None"
    by (simp add: new_events_def)
  have c: "last (trace ?s') = EvConnect (Some (NetConn 4)) [ConnOpt_Login ''clair'' ''secret''] (Some (StompConn 4)) None"
    by code_simp
  from l c have "conn = Some (NetConn 4)" by simp
  with l have "last (trace ?s') = EvConnect (Some (NetConn 4)) [ConnOpt_Login ''clair'' ''secret''] (Some (StompConn 4)) None"
    by simp
  moreover have "fst (Connection fake_env background ?s) = (Some (StompConn 4), None)"
    by code_simp
  ultimately show ?thesis by simp
qed

text \<open>
  C7. The options the handshake function itself receives, recorded by the environment
  (by \<open>Dial_recording\<close> and \<open>Connection_recording\<close> recording changes nothing else).
  A \<^verbatim>\<open>Dial\<close> call whose dial returns a nil error calls \<^verbatim>\<open>gostomp.Connect\<close> once,
  with the login option carrying the connector's login and passcode when the connector has
  credentials and with no option, an anonymous connect, when it has none; a \<^verbatim>\<open>Dial\<close>
  call whose dial fails starts no handshake. Every handshake call of a \<^verbatim>\<open>Connection\<close>
  run receives that same option list, whatever the endpoint.
\<close>

theorem handshakes_receive_credentials:
  "called_opts (new_calls s (snd (Dial (recording E) c uri s))) =
     (if snd (fst (DialContext E (choose_dialer (connector s)) c ''tcp'' uri (fst (world s)))) = None
      then [case login (connector s) of
              Some l \<Rightarrow> [ConnOpt_Login (Login l) (Passcode l)]
            | None \<Rightarrow> []]
      else []) \<and>
   (\<forall>opts \<in> set (called_opts (new_calls s (snd (Connection (recording E) c s)))).
      opts = (case login (connector s) of
                Some l \<Rightarrow> [ConnOpt_Login (Login l) (Passcode l)]
              | None \<Rightarrow> []))"
proof -
  obtain cs1 where k1: "snd (world (snd (Dial (recording E) c uri s))) = snd (world s) @ cs1"
    and o1: "called_opts cs1 =
       (if snd (fst (DialContext E (choose_dialer (connector s)) c ''tcp'' uri (fst (world s)))) = None
        then [login_opts (connector s)] else [])"
    using Dial_calls [of E c uri s] by blast
  obtain cs2 where k2: "snd (world (snd (Connection (recording E) c s))) = snd (world s) @ cs2"
    and o2: "set (called_opts cs2) \<subseteq> {login_opts (connector s)}"
    using Connection_loop_calls [of E "loop_ctx c" "uris (connector s)" s]
    unfolding Connection_def by blast
  have n1: "new_calls s (snd (Dial (recording E) c uri s)) = cs1" using k1 by (rule new_calls_ext)
  have n2: "new_calls s (snd (Connection (recording E) c s)) = cs2" using k2 by (rule new_calls_ext)
  have o: "login_opts (connector s) =
             (case login (connector s) of
                Some l \<Rightarrow> [ConnOpt_Login (Login l) (Passcode l)]
              | None \<Rightarrow> [])"
    by (simp add: login_opts_def split: option.splits)
  from o1 o2 show ?thesis
    unfolding n1 n2 o [symmetric] by blast
qed

theorem handshakes_receive_credentials_witness:
  "called_opts (snd (world (snd (Connection (recording fake_env) background (start_recording three_brokers))))) =
     [[ConnOpt_Login ''clair'' ''secret''], [ConnOpt_Login ''clair'' ''secret'']] \<and>
   called_opts (snd (world (snd (Dial (recording fake_env) background ''b2:61613'' (start_recording failing_brokers))))) =
     [[]] \<and>
   called_opts (snd (world (snd (Dial (recording fake_env) background ''b1:61613'' (start_recording three_brokers))))) =
     []"
proof -
  let ?s1 = "start_recording three_brokers"
  let ?s2 = "start_recording failing_brokers"
  let ?h1 = "called_opts (snd (world (snd (Connection (recording fake_env) background ?s1))))"
  have a: "length ?h1 = 2" by code_simp
  have l1: "login (connector ?s1) = Some \<lparr>Login = ''clair'', Passcode = ''secret''\<rparr>"
    by (simp add: start_recording_def three_brokers_def)
  have l2: "login (connector ?s2) = None"
    by (simp add: start_recording_def failing_brokers_def)
  have t1: "snd (world ?s1) = []" by (simp add: start_recording_def)
  have t2: "snd (world ?s2) = []" by (simp add: start_recording_def)
  have g1: "snd (fst (DialContext fake_env (choose_dialer (connector ?s1)) background ''tcp'' ''b1:61613''
              (fst (world ?s1)))) \<noteq> None"
    by code_simp
  have g2: "snd (fst (DialContext fake_env (choose_dialer (connector ?s2)) background ''tcp'' ''b2:61613''
              (fst (world ?s2)))) = None"
    by code_simp
  have c1: "\<forall>opts \<in> set ?h1. opts = [ConnOpt_Login ''clair'' ''secret'']"
    using handshakes_receive_credentials [of ?s1 fake_env background "''b1:61613''"] l1 t1
    by (simp add: new_calls_def)
  have c2: "called_opts (snd (world (snd (Dial (recording fake_env) background ''b2:61613'' ?s2)))) = [[]]"
    using handshakes_receive_credentials [of ?s2 fake_env background "''b2:61613''"] l2 t2 g2
    by (simp add: new_calls_def)
  have c3: "called_opts (snd (world (snd (Dial (recording fake_env) background ''b1:61613'' ?s1)))) = []"
    using handshakes_receive_credentials [of ?s1 fake_env background "''b1:61613''"] l1 t1 g1
    by (simp add: new_calls_def)
  from a c1 have "?h1 = [[ConnOpt_Login ''clair'' ''secret''], [ConnOpt_Login ''clair'' ''secret'']]"
    by (cases ?h1; cases "tl ?h1"; cases "tl (tl ?h1)") auto
  with c2 c3 show ?thesis by simp
qed

text \<open>
  C8. The dialer the dial function itself is called on, recorded by the environment (by
  \<open>Dial_recording\<close> and \<open>Connection_recording\<close> recording changes nothing else). Every
  \<^verbatim>\<open>Dial\<close> call dials exactly once, the given address over \<^verbatim>\<open>tcp\<close> with the given
  context, on the TLS dialer around the two-second TCP dialer with the connector's
  configuration when the connector's TLS field is set, and on the plain two-second TCP
  dialer when it is nil. Every dial of a \<^verbatim>\<open>Connection\<close> run is made on that same
  dialer, whatever the endpoint.
\<close>

theorem dials_use_selected_dialer:
  "called_dials (new_calls s (snd (Dial (recording E) c uri s))) =
     [(case tls (connector s) of
         Some cfg \<Rightarrow> TlsDialer \<lparr>Timeout = 2000000000\<rparr> cfg
       | None \<Rightarrow> NetDialer \<lparr>Timeout = 2000000000\<rparr>,
       c, ''tcp'', uri)] \<and>
   (\<forall>k \<in> set (called_dials (new_calls s (snd (Connection (recording E) c s)))).
      fst k = (case tls (connector s) of
                 Some cfg \<Rightarrow> TlsDialer \<lparr>Timeout = 2000000000\<rparr> cfg
               | None \<Rightarrow> NetDialer \<lparr>Timeout = 2000000000\<rparr>))"
proof -
  obtain cs1 where k1: "snd (world (snd (Dial (recording E) c uri s))) = snd (world s) @ cs1"
    and d1: "called_dials cs1 = [(choose_dialer (connector s), c, ''tcp'', uri)]"
    using Dial_calls [of E c uri s] by blast
  obtain cs2 where k2: "snd (world (snd (Connection (recording E) c s))) = snd (world s) @ cs2"
    and d2: "fst ` set (called_dials cs2) \<subseteq> {choose_dialer (connector s)}"
    using Connection_loop_calls [of E "loop_ctx c" "uris (connector s)" s]
    unfolding Connection_def by blast
  have n1: "new_calls s (snd (Dial (recording E) c uri s)) = cs1" using k1 by (rule new_calls_ext)
  have n2: "new_calls s (snd (Connection (recording E) c s)) = cs2" using k2 by (rule new_calls_ext)
  have k: "choose_dialer (connector s) =
             (case tls (connector s) of
                Some cfg \<Rightarrow> TlsDialer \<lparr>Timeout = 2000000000\<rparr> cfg
              | None \<Rightarrow> NetDialer \<lparr>Timeout = 2000000000\<rparr>)"
    by (simp add: choose_dialer_def Second_def Let_def)
  from d1 d2 show ?thesis
    unfolding n1 n2 k [symmetric] by blast
qed

theorem dials_use_selected_dialer_witness:
  "map fst (called_dials (snd (world (snd (Connection (recording fake_env) background (start_recording tls_brokers)))))) =
     [TlsDialer \<lparr>Timeout = 2000000000\<rparr> (TlsConfig ''broker.example''),
      TlsDialer \<lparr>Timeout = 2000000000\<rparr> (TlsConfig ''broker.example'')] \<and>
   called_dials (snd (world (snd (Dial (recording fake_env) background ''b2:61613'' (start_recording three_brokers))))) =
     [(NetDialer \<lparr>Timeout = 2000000000\<rparr>, background, ''tcp'', ''b2:61613'')]"
proof -
  let ?s1 = "start_recording tls_brokers"
  let ?s2 = "start_recording three_brokers"
  let ?d1 = "called_dials (snd (world (snd (Connection (recording fake_env) background ?s1))))"
  have a: "length ?d1 = 2" by code_simp
  have l1: "tls (connector ?s1) = Some (TlsConfig ''broker.example'')"
    by (simp add: start_recording_def tls_brokers_def)
  have l2: "tls (connector ?s2) = None"
    by (simp add: start_recording_def three_brokers_def)
  have t1: "snd (world ?s1) = []" by (simp add: start_recording_def)
  have t2: "snd (world ?s2) = []" by (simp add: start_recording_def)
  have c1: "\<forall>k \<in> set ?d1. fst k = TlsDialer \<lparr>Timeout = 2000000000\<rparr> (TlsConfig ''broker.example'')"
    using dials_use_selected_dialer [of ?s1 fake_env background "''b2:61613''"] l1 t1
    by (simp add: new_calls_def)
  have c2: "called_dials (snd (world (snd (Dial (recording fake_env) background ''b2:61613'' ?s2)))) =
              [(NetDialer \<lparr>Timeout = 2000000000\<rparr>, background, ''tcp'', ''b2:61613'')]"
    using dials_use_selected_dialer [of ?s2 fake_env background "''b2:61613''"] l2 t2
    by (simp add: new_calls_def)
  from a c1 have "map fst ?d1 = [TlsDialer \<lparr>Timeout = 2000000000\<rparr> (TlsConfig ''broker.example''),
                                 TlsDialer \<lparr>Timeout = 2000000000\<rparr> (TlsConfig ''broker.example'')]"
    by (cases ?d1; cases "tl ?d1"; cases "tl (tl ?d1)") auto
  with c2 show ?thesis by simp
qed

text \<open>
  C9. Neither \<^verbatim>\<open>Dial\<close> nor \<^verbatim>\<open>Connection\<close> writes to the struct its receiver points
  to: after either call the connector, with its address list, credentials and TLS
  configuration, is the one the call started with.
\<close>

theorem connector_unchanged:
  "connector (snd (Dial E c uri s)) = connector s \<and>
   connector (snd (Connection E c s)) = connector s"
  by (simp add: Dial_connector Connection_def Connection_loop_connector)




end
